theory Spec2Isabelle
  imports Complex_Main "HOL-Library.Stream"
begin

section \<open>The EDBO connector: data model\<close>

text \<open>
  A shallow embedding of \<^verbatim>\<open>edbo_connector/connector.py\<close>, the class
  \<^verbatim>\<open>EDBOWebApiConnector\<close>. Python dictionaries of strings are association lists
  in insertion order; \<^verbatim>\<open>d.update(e)\<close> overwrites a key in place and appends a new one.
\<close>

type_synonym dict = "(string \<times> string) list"

fun dict_set :: "string \<Rightarrow> string \<Rightarrow> dict \<Rightarrow> dict" where
  "dict_set k v [] = [(k, v)]"
| "dict_set k v ((k', v') # d) = (if k' = k then (k, v) # d else (k', v') # dict_set k v d)"

fun dict_update :: "dict \<Rightarrow> dict \<Rightarrow> dict" where
  "dict_update d [] = d"
| "dict_update d ((k, v) # e) = dict_update (dict_set k v d) e"

text \<open>The values \<^verbatim>\<open>response.json()\<close> can produce.\<close>

datatype json =
    JNull
  | JBool bool
  | JNumber real
  | JString string
  | JArray "json list"
  | JObject "(string \<times> json) list"

text \<open>
  The constants of \<^verbatim>\<open>config.py\<close>, which is not part of the sources, are
  parameters of the model. Times are seconds (Python floats, taken as reals).
\<close>

record config =
  EDBO_SERVER :: string
  EDBO_USER :: string
  EDBO_PASSWORD :: string
  EDBO_APPLICATION_KEY :: string
  USER_AGENT :: string
  RELOGIN_AFTER :: real
  EXECUTION_TIMEOUT :: real

text \<open>
  A \<^verbatim>\<open>requests.Response\<close>: its \<^verbatim>\<open>status_code\<close>, and what \<^verbatim>\<open>response.json()\<close>
  gives, \<open>None\<close> when the body is not valid JSON (the call then raises a \<^verbatim>\<open>ValueError\<close>).
\<close>

record response =
  status_code :: int
  response_json :: "json option"

text \<open>
  What \<^verbatim>\<open>Session.post\<close> does with a request: it raises
  \<^verbatim>\<open>requests.exceptions.ConnectionError\<close> or returns a response.
\<close>

datatype reply = ConnectionError | Response response

text \<open>
  A request as the session sends it. \<^verbatim>\<open>Session.post(url, data=None, json=None, **kwargs)\<close>
  has the URL, the form data and a JSON body as its positional parameters; headers are the
  keyword \<^verbatim>\<open>headers\<close>, merged over the headers of the session.
\<close>

record request =
  req_url :: string
  req_data :: dict
  req_json :: "dict option"
  req_headers :: dict

datatype event = Sleep real | Post request

text \<open>
  The world outside the client: the readings that successive calls of \<^verbatim>\<open>time.time()\<close>
  will return, the outcomes of the successive POST attempts, and the log of what the client
  has done so far.
\<close>

record world =
  clock :: "real stream"
  replies :: "reply stream"
  trace :: "event list"

text \<open>
  The fields of an \<^verbatim>\<open>EDBOWebApiConnector\<close> (the source writes them with a leading
  underscore). \<^verbatim>\<open>_session_start_time\<close> is not set by \<^verbatim>\<open>__init__\<close>: it does not
  exist before the first login that is answered with 200.
\<close>

record client =
  status :: "int option"
  execution_time :: real
  is_logged_in :: bool
  session_start_time :: "real option"
  session_headers :: dict

datatype exn = RecursionError | AttributeError | TypeError | ValueError

text \<open>
  How a method call ends: it returns a value, it raises an exception that nothing in the
  class catches, or the process is terminated. Each carries the client and the world at
  that moment. A call that never ends is \<open>None\<close> in the \<open>option\<close> around an outcome.
\<close>

datatype 'a outcome =
    Returns 'a client world
  | Raises exn client world
  | Exits client world

fun outcome_client :: "'a outcome \<Rightarrow> client" where
  "outcome_client (Returns v s w) = s"
| "outcome_client (Raises e s w) = s"
| "outcome_client (Exits s w) = s"

fun outcome_world :: "'a outcome \<Rightarrow> world" where
  "outcome_world (Returns v s w) = w"
| "outcome_world (Raises e s w) = w"
| "outcome_world (Exits s w) = w"

fun returned :: "'a outcome \<Rightarrow> bool" where
  "returned (Returns v s w) = True"
| "returned (Raises e s w) = False"
| "returned (Exits s w) = False"

fun raised :: "'a outcome \<Rightarrow> exn option" where
  "raised (Returns v s w) = None"
| "raised (Raises e s w) = Some e"
| "raised (Exits s w) = None"

fun exited :: "'a outcome \<Rightarrow> bool" where
  "exited (Returns v s w) = False"
| "exited (Raises e s w) = False"
| "exited (Exits s w) = True"

text \<open>What \<^verbatim>\<open>execute\<close> hands back: the parsed JSON, the response object, or \<^verbatim>\<open>None\<close>.\<close>

datatype pyval = PJson json | PResponse response | PNone

section \<open>The environment\<close>

definition time_time :: "world \<Rightarrow> real \<times> world" where
  "time_time w = (shd (clock w), w\<lparr>clock := stl (clock w)\<rparr>)"

definition time_sleep :: "real \<Rightarrow> world \<Rightarrow> world" where
  "time_sleep x w = w\<lparr>trace := trace w @ [Sleep x]\<rparr>"

text \<open>
  \<^verbatim>\<open>self._session.post(url, data, json, headers=...)\<close>: the attempt is logged with the
  headers it carries (those of the session, updated by those of the call), and the next
  reply of the world is its result.
\<close>

definition sent_headers :: "client \<Rightarrow> dict option \<Rightarrow> dict" where
  "sent_headers s h = dict_update (session_headers s) (case h of None \<Rightarrow> [] | Some hs \<Rightarrow> hs)"

definition session_post ::
  "client \<Rightarrow> string \<Rightarrow> dict \<Rightarrow> dict option \<Rightarrow> dict option \<Rightarrow> world \<Rightarrow> reply \<times> world" where
  "session_post s u d j h w =
     (shd (replies w),
      w\<lparr>replies := stl (replies w),
        trace := trace w @
          [Post \<lparr>req_url = u, req_data = d, req_json = j, req_headers = sent_headers s h\<rparr>]\<rparr>)"

text \<open>Python's \<^verbatim>\<open>int(x)\<close> on a float truncates towards zero.\<close>

definition py_int :: "real \<Rightarrow> int" where
  "py_int x = (if 0 \<le> x then \<lfloor>x\<rfloor> else \<lceil>x\<rceil>)"

section \<open>The connector\<close>

definition url_prefix :: "config \<Rightarrow> string" where
  "url_prefix cfg = EDBO_SERVER cfg @ ''/data/EDEBOWebApi''"

definition default_headers :: "config \<Rightarrow> dict" where
  "default_headers cfg =
     [(''Origin'', EDBO_SERVER cfg), (''Referer'', EDBO_SERVER cfg), (''User-Agent'', USER_AGENT cfg)]"

text \<open>
  Modelled from the spec: \<^verbatim>\<open>EDBOWebApiHelper.echo\<close> lives in \<^verbatim>\<open>helper.py\<close>, which
  is not part of the sources. The spec describes it as a message display with an optional
  "terminate process" flag: a call without \<^verbatim>\<open>force_exit\<close> changes nothing the client
  can see and is left out of the model, a call with \<^verbatim>\<open>force_exit=True\<close> terminates
  the process.
\<close>

fun echo_force_exit :: "client \<Rightarrow> world \<Rightarrow> unit outcome" where
  "echo_force_exit s w = Exits s w"

text \<open>
  \<^verbatim>\<open>__login\<close>. The \<^verbatim>\<open>try\<close> catches only \<^verbatim>\<open>ConnectionError\<close>. With status 200 the
  three fields are assigned before the header is built from
  \<^verbatim>\<open>'Bearer ' + response.json().get('access_token', None)\<close>: \<^verbatim>\<open>json()\<close> raises a
  \<^verbatim>\<open>ValueError\<close> on a body that is not JSON, \<^verbatim>\<open>.get\<close> an \<^verbatim>\<open>AttributeError\<close> on a value
  that is not an object, and \<^verbatim>\<open>+\<close> a \<^verbatim>\<open>TypeError\<close> on anything but a string. With
  status 400 the message is \<^verbatim>\<open>response.json().get('error', ...)\<close>, evaluated before
  \<^verbatim>\<open>echo\<close> is called.
\<close>

definition login :: "config \<Rightarrow> string \<Rightarrow> string \<Rightarrow> client \<Rightarrow> world \<Rightarrow> unit outcome" where
  "login cfg username password s w =
     (case session_post s (url_prefix cfg @ ''/oauth/token'')
             [(''grant_type'', ''password''), (''username'', username),
              (''password'', password), (''app_key'', EDBO_APPLICATION_KEY cfg)]
             None (Some (default_headers cfg)) w of
        (ConnectionError, w1) \<Rightarrow> echo_force_exit s w1
      | (Response r, w1) \<Rightarrow>
          if status_code r = 200 then
            (case time_time w1 of (now, w2) \<Rightarrow>
              (let s1 = s\<lparr>session_start_time := Some now,
                          status := Some (status_code r),
                          is_logged_in := True\<rparr>
               in case response_json r of
                    None \<Rightarrow> Raises ValueError s1 w2
                  | Some (JObject kvs) \<Rightarrow>
                      (case map_of kvs ''access_token'' of
                         Some (JString tok) \<Rightarrow>
                           Returns ()
                             (s1\<lparr>session_headers :=
                                   dict_update (session_headers s1)
                                     [(''authorization'', ''Bearer '' @ tok)]\<rparr>) w2
                       | _ \<Rightarrow> Raises TypeError s1 w2)
                  | Some _ \<Rightarrow> Raises AttributeError s1 w2))
          else if status_code r = 400 then
            (case response_json r of
               None \<Rightarrow> Raises ValueError s w1
             | Some (JObject kvs) \<Rightarrow> echo_force_exit s w1
             | Some _ \<Rightarrow> Raises AttributeError s w1)
          else echo_force_exit s w1)"

text \<open>
  The retry loop of \<^verbatim>\<open>execute\<close> (\<^verbatim>\<open>while True\<close>): read the clock, post, and on a
  \<^verbatim>\<open>ConnectionError\<close> start again; on a response read the clock once more and leave.
  The call passes the form data and the caller's headers as the second and third positional
  arguments of \<^verbatim>\<open>Session.post\<close>. The loop has no bound, so it is a partial function:
  \<open>None\<close> when every attempt fails.
\<close>

partial_function (option) retry_post ::
  "client \<Rightarrow> string \<Rightarrow> dict \<Rightarrow> dict \<Rightarrow> world \<Rightarrow> (response \<times> real \<times> real \<times> world) option" where
  "retry_post s u d h w =
     (case session_post s u d (Some h) None (snd (time_time w)) of
        (ConnectionError, w2) \<Rightarrow> retry_post s u d h w2
      | (Response r, w2) \<Rightarrow>
          Some (r, fst (time_time w), fst (time_time w2), snd (time_time w2)))"

text \<open>
  \<^verbatim>\<open>execute\<close> from the sleep on (lines 183 to 232): wait, run the retry loop, store the
  duration of the last attempt and the status, and return according to the status.
  A status other than 200 falls off the end of the function, which returns \<^verbatim>\<open>None\<close>.
\<close>

definition execute_request ::
  "config \<Rightarrow> string \<Rightarrow> dict option \<Rightarrow> dict option \<Rightarrow> bool \<Rightarrow> client \<Rightarrow> world \<Rightarrow> pyval outcome option" where
  "execute_request cfg url data headers json_format s w =
     (case retry_post s (url_prefix cfg @ ''/api/'' @ url)
             (case data of None \<Rightarrow> [('''', '''')] | Some d \<Rightarrow> d)
             (case headers of None \<Rightarrow> [] | Some h \<Rightarrow> h)
             (time_sleep (EXECUTION_TIMEOUT cfg) w) of
        None \<Rightarrow> None
      | Some (r, execution_start, execution_end, w1) \<Rightarrow>
          (let s1 = s\<lparr>execution_time := execution_end - execution_start,
                      status := Some (status_code r)\<rparr>
           in if status s1 = Some 200 then
                (if json_format then
                   (case response_json r of
                      None \<Rightarrow> Some (Raises ValueError s1 w1)
                    | Some j \<Rightarrow> Some (Returns (PJson j) s1 w1))
                 else Some (Returns (PResponse r) s1 w1))
              else Some (Returns PNone s1 w1)))"

text \<open>
  The test of line 175, \<^verbatim>\<open>int(time.time() - self._session_start_time) > config.RELOGIN_AFTER\<close>.
\<close>

definition session_expired :: "config \<Rightarrow> real \<Rightarrow> real \<Rightarrow> bool" where
  "session_expired cfg t0 now \<longleftrightarrow> real_of_int (py_int (now - t0)) > RELOGIN_AFTER cfg"

text \<open>
  \<^verbatim>\<open>execute\<close> and \<^verbatim>\<open>__logout\<close> call each other: \<^verbatim>\<open>execute\<close> logs out and in again
  when the session is older than \<^verbatim>\<open>RELOGIN_AFTER\<close>, and \<^verbatim>\<open>__logout\<close> sends its
  request through \<^verbatim>\<open>execute\<close>. The first argument is the number of nested calls the
  interpreter's recursion limit still allows; a call beyond it raises \<^verbatim>\<open>RecursionError\<close>.
  \<open>session_check\<close> is the first block of \<^verbatim>\<open>execute\<close> (lines 174 to 181): the clock is
  read, then the start time (an \<^verbatim>\<open>AttributeError\<close> when it was never set). The re-login
  uses the defaults of \<^verbatim>\<open>__login\<close>, the credentials of the configuration.
\<close>

fun execute ::
  "nat \<Rightarrow> config \<Rightarrow> string \<Rightarrow> dict option \<Rightarrow> dict option \<Rightarrow> bool \<Rightarrow> client \<Rightarrow> world \<Rightarrow> pyval outcome option"
and session_check :: "nat \<Rightarrow> config \<Rightarrow> client \<Rightarrow> world \<Rightarrow> unit outcome option"
and logout :: "nat \<Rightarrow> config \<Rightarrow> client \<Rightarrow> world \<Rightarrow> unit outcome option" where
  "execute 0 cfg url data headers json_format s w = Some (Raises RecursionError s w)"
| "execute (Suc n) cfg url data headers json_format s w =
     (case session_check n cfg s w of
        None \<Rightarrow> None
      | Some (Raises e s1 w1) \<Rightarrow> Some (Raises e s1 w1)
      | Some (Exits s1 w1) \<Rightarrow> Some (Exits s1 w1)
      | Some (Returns u s1 w1) \<Rightarrow> execute_request cfg url data headers json_format s1 w1)"
| "session_check n cfg s w =
     (case time_time w of (now, w1) \<Rightarrow>
       (case session_start_time s of
          None \<Rightarrow> Some (Raises AttributeError s w1)
        | Some t0 \<Rightarrow>
            if session_expired cfg t0 now then
              (case logout n cfg s w1 of
                 None \<Rightarrow> None
               | Some (Raises e s1 w2) \<Rightarrow> Some (Raises e s1 w2)
               | Some (Exits s1 w2) \<Rightarrow> Some (Exits s1 w2)
               | Some (Returns u s1 w2) \<Rightarrow>
                   Some (login cfg (EDBO_USER cfg) (EDBO_PASSWORD cfg) s1 w2))
            else Some (Returns () s w1)))"
| "logout 0 cfg s w = Some (Raises RecursionError s w)"
| "logout (Suc n) cfg s w =
     (case execute n cfg ''auth/logout'' None None True s w of
        None \<Rightarrow> None
      | Some (Raises e s1 w1) \<Rightarrow> Some (Raises e s1 w1)
      | Some (Exits s1 w1) \<Rightarrow> Some (Exits s1 w1)
      | Some (Returns v s1 w1) \<Rightarrow>
          Some (Returns () (if status s1 = Some 204 then s1\<lparr>is_logged_in := False\<rparr> else s1) w1))"

text \<open>
  \<^verbatim>\<open>__init__\<close>: the fresh fields, the default headers put over those a new
  \<^verbatim>\<open>requests.Session\<close> starts with (a parameter), then the login. \<^verbatim>\<open>__del__\<close> logs out
  when the client is logged in.
\<close>

definition new_client :: "config \<Rightarrow> dict \<Rightarrow> client" where
  "new_client cfg hs =
     \<lparr>status = None, execution_time = 0, is_logged_in = False,
      session_start_time = None, session_headers = dict_update hs (default_headers cfg)\<rparr>"

definition init :: "config \<Rightarrow> dict \<Rightarrow> string \<Rightarrow> string \<Rightarrow> world \<Rightarrow> unit outcome" where
  "init cfg hs username password w = login cfg username password (new_client cfg hs) w"

definition del :: "nat \<Rightarrow> config \<Rightarrow> client \<Rightarrow> world \<Rightarrow> unit outcome option" where
  "del n cfg s w = (if is_logged_in s then logout n cfg s w else Some (Returns () s w))"

section \<open>Notions used in the statements\<close>

text \<open>One POST attempt of the retry loop, as it appears in the trace.\<close>

definition attempt :: "client \<Rightarrow> string \<Rightarrow> dict \<Rightarrow> dict \<Rightarrow> event" where
  "attempt s u d h =
     Post \<lparr>req_url = u, req_data = d, req_json = Some h, req_headers = sent_headers s None\<rparr>"

text \<open>The bearer token is defined: the session headers have an \<^verbatim>\<open>authorization\<close> entry.\<close>

definition has_bearer :: "client \<Rightarrow> bool" where
  "has_bearer s \<longleftrightarrow> map_of (session_headers s) ''authorization'' \<noteq> None"

text \<open>A clock that is never set back between two readings.\<close>

definition nondecreasing :: "real stream \<Rightarrow> bool" where
  "nondecreasing c \<longleftrightarrow> (\<forall>i. c !! i \<le> c !! Suc i)"

text \<open>
  The client states that can arise: the fresh client of \<^verbatim>\<open>__init__\<close>, and the state
  any login, logout or \<^verbatim>\<open>execute\<close> that ends leaves behind, in any world.
\<close>

inductive reachable :: "config \<Rightarrow> dict \<Rightarrow> client \<Rightarrow> bool" for cfg :: config and hs :: dict where
  fresh: "reachable cfg hs (new_client cfg hs)"
| after_login: "reachable cfg hs s \<Longrightarrow> reachable cfg hs (outcome_client (login cfg u p s w))"
| after_logout: "reachable cfg hs s \<Longrightarrow> logout n cfg s w = Some out \<Longrightarrow>
                 reachable cfg hs (outcome_client out)"
| after_execute: "reachable cfg hs s \<Longrightarrow> execute n cfg url d h jf s w = Some out' \<Longrightarrow>
                  reachable cfg hs (outcome_client out')"

text \<open>A configuration, a logged-in client and two answers of the server, for the examples.\<close>

definition example_config :: config where
  "example_config =
     \<lparr>EDBO_SERVER = ''https://edbo.example'', EDBO_USER = ''user'', EDBO_PASSWORD = ''secret'',
      EDBO_APPLICATION_KEY = ''key'', USER_AGENT = ''agent'', RELOGIN_AFTER = 900,
      EXECUTION_TIMEOUT = 1\<rparr>"

definition example_client :: client where
  "example_client =
     \<lparr>status = Some 200, execution_time = 0, is_logged_in = True,
      session_start_time = Some 0, session_headers = [(''authorization'', ''Bearer abc'')]\<rparr>"

definition token_response :: response where
  "token_response =
     \<lparr>status_code = 200, response_json = Some (JObject [(''access_token'', JString ''abc'')])\<rparr>"

definition plain_response :: "int \<Rightarrow> response" where
  "plain_response c = \<lparr>status_code = c, response_json = None\<rparr>"

text \<open>A world for a whole life of a client: the login gets a token, the logout a 204.\<close>

definition example_world :: world where
  "example_world =
     \<lparr>clock = sconst 10,
      replies = [Response token_response, Response (plain_response 204)] @- sconst ConnectionError,
      trace = []\<rparr>"

definition logged_in_client :: client where
  "logged_in_client = outcome_client (init example_config [] ''user'' ''secret'' example_world)"

definition world_after_login :: world where
  "world_after_login = outcome_world (init example_config [] ''user'' ''secret'' example_world)"

section \<open>The retry loop\<close>

lemma retry_post_fail:
  "shd (replies w) = ConnectionError \<Longrightarrow>
   retry_post s u d h w = retry_post s u d h (snd (session_post s u d (Some h) None (snd (time_time w))))"
  by (subst retry_post.simps) (simp add: session_post_def time_time_def)

lemma retry_post_ok:
  "shd (replies w) = Response r \<Longrightarrow>
   retry_post s u d h w =
     Some (r, shd (clock w), shd (stl (clock w)),
           w\<lparr>clock := stl (stl (clock w)), replies := stl (replies w),
             trace := trace w @ [attempt s u d h]\<rparr>)"
  by (subst retry_post.simps) (simp add: session_post_def time_time_def attempt_def)

text \<open>
  After \<open>k\<close> failed attempts and a response the loop has read the clock \<open>k + 2\<close> times and
  posted \<open>k + 1\<close> times; the two readings it hands back are those around the last attempt.
\<close>

lemma retry_post_eventually:
  "replies w = replicate k ConnectionError @- (Response r ## rest) \<Longrightarrow>
   retry_post s u d h w =
     Some (r, clock w !! k, clock w !! Suc k,
           w\<lparr>clock := sdrop (k + 2) (clock w), replies := rest,
             trace := trace w @ replicate (Suc k) (attempt s u d h)\<rparr>)"
proof (induction k arbitrary: w)
  case 0
  then show ?case by (simp add: retry_post_ok)
next
  case (Suc k)
  let ?w = "snd (session_post s u d (Some h) None (snd (time_time w)))"
  from Suc.prems have hd: "shd (replies w) = ConnectionError" by simp
  from Suc.prems have tl: "replies ?w = replicate k ConnectionError @- (Response r ## rest)"
    by (simp add: session_post_def time_time_def)
  have "retry_post s u d h w = retry_post s u d h ?w" by (rule retry_post_fail [OF hd])
  also note Suc.IH [OF tl]
  finally show ?case
    by (simp add: session_post_def time_time_def attempt_def replicate_append_same)
qed

lemma execute_request_eventually:
  assumes "replies w = replicate k ConnectionError @- (Response r ## rest)"
  shows "execute_request cfg url data headers jf s w =
     (let s1 = s\<lparr>execution_time := clock w !! Suc k - clock w !! k, status := Some (status_code r)\<rparr>;
          w1 = w\<lparr>clock := sdrop (k + 2) (clock w), replies := rest,
                 trace := trace w @ Sleep (EXECUTION_TIMEOUT cfg) #
                   replicate (Suc k) (attempt s (url_prefix cfg @ ''/api/'' @ url)
                      (case data of None \<Rightarrow> [('''', '''')] | Some d \<Rightarrow> d)
                      (case headers of None \<Rightarrow> [] | Some h \<Rightarrow> h))\<rparr>
      in if status_code r = 200 then
           (if jf then
              (case response_json r of
                 None \<Rightarrow> Some (Raises ValueError s1 w1)
               | Some j \<Rightarrow> Some (Returns (PJson j) s1 w1))
            else Some (Returns (PResponse r) s1 w1))
         else Some (Returns PNone s1 w1))"
proof -
  have r: "replies (time_sleep (EXECUTION_TIMEOUT cfg) w) = replicate k ConnectionError @- (Response r ## rest)"
    using assms by (simp add: time_sleep_def)
  show ?thesis
    unfolding execute_request_def retry_post_eventually [OF r]
    by (simp add: time_sleep_def Let_def)
qed

text \<open>The request part of \<^verbatim>\<open>execute\<close> writes the status and the execution time only.\<close>

lemma execute_request_keeps:
  assumes "execute_request cfg url data headers jf s w = Some out"
  shows "is_logged_in (outcome_client out) = is_logged_in s \<and>
         session_headers (outcome_client out) = session_headers s \<and>
         session_start_time (outcome_client out) = session_start_time s"
  using assms unfolding execute_request_def
  by (auto simp: Let_def split: option.splits prod.splits if_splits)

section \<open>Login\<close>

text \<open>
  C10. A login answered with status 200 and a JSON object without \<^verbatim>\<open>access_token\<close> raises
  a \<^verbatim>\<open>TypeError\<close> while it builds the authorization header, and by then the client is
  already marked logged in and the session start time is recorded; the headers are untouched.
\<close>

theorem login_without_token_not_atomic:
  assumes "shd (replies w) = Response r" and "status_code r = 200"
    and "response_json r = Some (JObject kvs)" and "map_of kvs ''access_token'' = None"
  shows "raised (login cfg username password s w) = Some TypeError \<and>
         is_logged_in (outcome_client (login cfg username password s w)) \<and>
         session_start_time (outcome_client (login cfg username password s w)) = Some (shd (clock w)) \<and>
         session_headers (outcome_client (login cfg username password s w)) = session_headers s"
  using assms by (simp add: login_def session_post_def time_time_def)

theorem login_without_token_not_atomic_witness:
  "raised (login example_config ''user'' ''secret'' (new_client example_config [])
      \<lparr>clock = sconst 42,
       replies = Response \<lparr>status_code = 200, response_json = Some (JObject [(''token_type'', JString ''bearer'')])\<rparr>
                 ## sconst ConnectionError,
       trace = []\<rparr>) = Some TypeError \<and>
   is_logged_in (outcome_client (login example_config ''user'' ''secret'' (new_client example_config [])
      \<lparr>clock = sconst 42,
       replies = Response \<lparr>status_code = 200, response_json = Some (JObject [(''token_type'', JString ''bearer'')])\<rparr>
                 ## sconst ConnectionError,
       trace = []\<rparr>)) \<and>
   \<not> is_logged_in (new_client example_config [])"
  using login_without_token_not_atomic
    [of "\<lparr>clock = sconst 42,
         replies = Response \<lparr>status_code = 200, response_json = Some (JObject [(''token_type'', JString ''bearer'')])\<rparr>
                   ## sconst ConnectionError,
         trace = []\<rparr>"
        "\<lparr>status_code = 200, response_json = Some (JObject [(''token_type'', JString ''bearer'')])\<rparr>"
        "[(''token_type'', JString ''bearer'')]" example_config "''user''" "''secret''"
        "new_client example_config []"]
  by (simp add: new_client_def)




section \<open>The request of \<^verbatim>\<open>execute\<close>\<close>

lemma execute_after_check:
  assumes "session_check n cfg s w = Some (Returns () s1 w1)"
  shows "execute (Suc n) cfg url data headers jf s w = execute_request cfg url data headers jf s1 w1"
  using assms by simp

text \<open>
  C4. When the session check of an \<^verbatim>\<open>execute\<close> call has passed and the POST attempts meet
  \<open>k\<close> connection failures and then a response, the call ends: the loop has used exactly
  these \<open>k + 1\<close> replies (one attempt each in the trace, after the sleep), and the stored
  execution time is the difference of the two clock readings around the last attempt.
\<close>

theorem execute_retries_until_response:
  assumes "session_check n cfg s w = Some (Returns () s1 w1)"
    and "replies w1 = replicate k ConnectionError @- (Response r ## rest)"
  shows "\<exists>out. execute (Suc n) cfg url data headers jf s w = Some out \<and>
           execution_time (outcome_client out) = clock w1 !! Suc k - clock w1 !! k \<and>
           replies (outcome_world out) = rest \<and>
           trace (outcome_world out) =
             trace w1 @ Sleep (EXECUTION_TIMEOUT cfg) #
               replicate (Suc k) (attempt s1 (url_prefix cfg @ ''/api/'' @ url)
                  (case data of None \<Rightarrow> [('''', '''')] | Some d \<Rightarrow> d)
                  (case headers of None \<Rightarrow> [] | Some h \<Rightarrow> h))"
  unfolding execute_after_check [OF assms(1)] execute_request_eventually [OF assms(2)]
  by (simp add: Let_def split: option.split)

theorem execute_retries_until_response_witness:
  "map_option (execution_time \<circ> outcome_client)
     (execute (Suc 0) example_config ''students/list'' None None True example_client
        \<lparr>clock = [10, 11, 12, 13, 17.5] @- sconst 20,
         replies = [ConnectionError, ConnectionError, Response (plain_response 204)] @- sconst ConnectionError,
         trace = []\<rparr>) = Some 4.5"
  using execute_retries_until_response
    [of 0 example_config example_client
        "\<lparr>clock = [10, 11, 12, 13, 17.5] @- sconst 20,
          replies = [ConnectionError, ConnectionError, Response (plain_response 204)] @- sconst ConnectionError,
          trace = []\<rparr>"
        example_client
        "\<lparr>clock = [11, 12, 13, 17.5] @- sconst 20,
          replies = [ConnectionError, ConnectionError, Response (plain_response 204)] @- sconst ConnectionError,
          trace = []\<rparr>"
        "Suc (Suc 0)" "plain_response 204" "sconst ConnectionError"
        "''students/list''" None None True]
  by (auto simp: time_time_def session_expired_def py_int_def example_client_def example_config_def)


text \<open>
  C3, as amended. When the session check has passed and the attempts end with a response:
  with status 200 and \<^verbatim>\<open>json_format\<close> the call returns the parsed JSON body when the
  body is valid JSON, and otherwise the \<^verbatim>\<open>ValueError\<close> of \<^verbatim>\<open>response.json()\<close> reaches
  the caller; with status 200 and no \<^verbatim>\<open>json_format\<close> it returns the response object; with
  any other status it returns \<^verbatim>\<open>None\<close> and raises nothing. The status is stored in each case.
\<close>

theorem execute_return_value:
  assumes "session_check n cfg s w = Some (Returns () s1 w1)"
    and "replies w1 = replicate k ConnectionError @- (Response r ## rest)"
  shows "\<exists>s2 w2. status s2 = Some (status_code r) \<and>
           execute (Suc n) cfg url data headers jf s w =
             Some (if status_code r = 200 then
                     (if jf then
                        (case response_json r of
                           None \<Rightarrow> Raises ValueError s2 w2
                         | Some j \<Rightarrow> Returns (PJson j) s2 w2)
                      else Returns (PResponse r) s2 w2)
                   else Returns PNone s2 w2)"
  unfolding execute_after_check [OF assms(1)] execute_request_eventually [OF assms(2)]
  by (simp add: Let_def split: option.split)

theorem execute_return_value_witness:
  "\<exists>s2 w2. status s2 = Some 200 \<and>
     execute (Suc 0) example_config ''students/list'' None None True example_client
       \<lparr>clock = sconst 10, replies = Response token_response ## sconst ConnectionError, trace = []\<rparr> =
     Some (Returns (PJson (JObject [(''access_token'', JString ''abc'')])) s2 w2)"
  using execute_return_value
    [of 0 example_config example_client
        "\<lparr>clock = sconst 10, replies = Response token_response ## sconst ConnectionError, trace = []\<rparr>"
        example_client
        "\<lparr>clock = sconst 10, replies = Response token_response ## sconst ConnectionError, trace = []\<rparr>"
        0 token_response "sconst ConnectionError"
        "''students/list''" None None True]
  by (simp add: time_time_def session_expired_def py_int_def example_client_def
        example_config_def token_response_def)

text \<open>
  C3 as stated fails: a response with status 200 whose body is not JSON, asked for with
  \<^verbatim>\<open>json_format\<close>, makes the call raise instead of returning the parsed body.
\<close>

theorem execute_return_value_counterexample:
  "map_option raised
     (execute (Suc 0) example_config ''students/list'' None None True example_client
        \<lparr>clock = sconst 10, replies = Response (plain_response 200) ## sconst ConnectionError, trace = []\<rparr>) =
   Some (Some ValueError)"
  using execute_request_eventually
    [of "\<lparr>clock = sconst 10, replies = Response (plain_response 200) ## sconst ConnectionError, trace = []\<rparr>"
        0 "plain_response 200" "sconst ConnectionError"
        example_config "''students/list''" None None True example_client]
  by (simp add: time_time_def session_expired_def py_int_def example_client_def
        example_config_def plain_response_def)


text \<open>
  C5. The failing input: a call with form data and with headers. The POST goes out after the
  sleep, to the URL of the method and with the form data, but the headers of the caller are
  the third positional argument of \<^verbatim>\<open>Session.post\<close>, its \<^verbatim>\<open>json\<close> parameter: the request
  carries the headers of the session only.
\<close>

theorem execute_headers_sent_as_json:
  "map_option (trace \<circ> outcome_world)
     (execute (Suc 0) example_config ''students/list'' (Some [(''page'', ''1'')])
        (Some [(''X-Requested-With'', ''XMLHttpRequest'')]) True example_client
        \<lparr>clock = sconst 10, replies = Response (plain_response 204) ## sconst ConnectionError,
         trace = []\<rparr>) =
   Some [Sleep 1,
         Post \<lparr>req_url = ''https://edbo.example/data/EDEBOWebApi/api/students/list'',
               req_data = [(''page'', ''1'')],
               req_json = Some [(''X-Requested-With'', ''XMLHttpRequest'')],
               req_headers = [(''authorization'', ''Bearer abc'')]\<rparr>]"
  using execute_request_eventually
    [of "\<lparr>clock = sconst 10, replies = Response (plain_response 204) ## sconst ConnectionError,
          trace = []\<rparr>"
        0 "plain_response 204" "sconst ConnectionError"
        example_config "''students/list''" "Some [(''page'', ''1'')]"
        "Some [(''X-Requested-With'', ''XMLHttpRequest'')]" True example_client]
  by (simp add: time_time_def session_expired_def py_int_def example_client_def
        example_config_def plain_response_def url_prefix_def attempt_def sent_headers_def)

text \<open>
  C8, as amended. An \<^verbatim>\<open>execute\<close> whose session check has passed and whose attempts end
  with a response leaves the status of that response and the duration of its last attempt in
  the client; so does the logout that sends its request through such a call. A login answered
  with 200 stores the status 200 and leaves the execution time as it was.
\<close>

theorem last_request_record:
  "(session_check n cfg s w = Some (Returns () s1 w1) \<and>
    replies w1 = replicate k ConnectionError @- (Response r ## rest) \<longrightarrow>
      (\<exists>out. execute (Suc n) cfg url data headers jf s w = Some out \<and>
         status (outcome_client out) = Some (status_code r) \<and>
         execution_time (outcome_client out) = clock w1 !! Suc k - clock w1 !! k) \<and>
      (\<exists>out. logout (Suc (Suc n)) cfg s w = Some out \<and>
         status (outcome_client out) = Some (status_code r) \<and>
         execution_time (outcome_client out) = clock w1 !! Suc k - clock w1 !! k)) \<and>
   (shd (replies w') = Response r' \<and> status_code r' = 200 \<longrightarrow>
      status (outcome_client (login cfg u p s' w')) = Some 200 \<and>
      execution_time (outcome_client (login cfg u p s' w')) = execution_time s')"
proof (intro conjI impI)
  assume a: "session_check n cfg s w = Some (Returns () s1 w1) \<and>
    replies w1 = replicate k ConnectionError @- (Response r ## rest)"
  then have c: "session_check n cfg s w = Some (Returns () s1 w1)"
    and e: "replies w1 = replicate k ConnectionError @- (Response r ## rest)" by simp_all
  show "\<exists>out. execute (Suc n) cfg url data headers jf s w = Some out \<and>
         status (outcome_client out) = Some (status_code r) \<and>
         execution_time (outcome_client out) = clock w1 !! Suc k - clock w1 !! k"
    unfolding execute_after_check [OF c] execute_request_eventually [OF e]
    by (simp add: Let_def split: option.split)
  show "\<exists>out. logout (Suc (Suc n)) cfg s w = Some out \<and>
         status (outcome_client out) = Some (status_code r) \<and>
         execution_time (outcome_client out) = clock w1 !! Suc k - clock w1 !! k"
    unfolding logout.simps execute_after_check [OF c] execute_request_eventually [OF e]
    by (simp add: Let_def split: option.split)
next
  assume "shd (replies w') = Response r' \<and> status_code r' = 200"
  then show "status (outcome_client (login cfg u p s' w')) = Some 200"
    and "execution_time (outcome_client (login cfg u p s' w')) = execution_time s'"
    by (auto simp: login_def session_post_def time_time_def Let_def
          split: option.split json.split)
qed

theorem last_request_record_witness:
  "(\<exists>out. execute (Suc 0) example_config ''students/list'' None None True example_client
       \<lparr>clock = [10, 11, 13.25] @- sconst 20,
        replies = Response (plain_response 404) ## sconst ConnectionError, trace = []\<rparr> = Some out \<and>
      status (outcome_client out) = Some 404 \<and> execution_time (outcome_client out) = 2.25) \<and>
   status (outcome_client (login example_config ''user'' ''secret'' (example_client\<lparr>execution_time := 2.25\<rparr>)
      \<lparr>clock = sconst 10, replies = Response token_response ## sconst ConnectionError, trace = []\<rparr>)) = Some 200 \<and>
   execution_time (outcome_client (login example_config ''user'' ''secret'' (example_client\<lparr>execution_time := 2.25\<rparr>)
      \<lparr>clock = sconst 10, replies = Response token_response ## sconst ConnectionError, trace = []\<rparr>)) = 2.25"
  using last_request_record
    [of 0 example_config example_client
        "\<lparr>clock = [10, 11, 13.25] @- sconst 20,
          replies = Response (plain_response 404) ## sconst ConnectionError, trace = []\<rparr>"
        example_client
        "\<lparr>clock = [11, 13.25] @- sconst 20,
          replies = Response (plain_response 404) ## sconst ConnectionError, trace = []\<rparr>"
        0 "plain_response 404" "sconst ConnectionError"
        "''students/list''" None None True
        "\<lparr>clock = sconst 10, replies = Response token_response ## sconst ConnectionError, trace = []\<rparr>"
        token_response "''user''" "''secret''" "example_client\<lparr>execution_time := 2.25\<rparr>"]
  by (simp add: time_time_def session_expired_def py_int_def example_client_def
        example_config_def plain_response_def token_response_def)

text \<open>
  C8 as stated fails for the login: the constructor's login is answered, the status is that of
  the login, and the execution time is still the initial 0 of \<^verbatim>\<open>__init__\<close>; the login
  never measures its request.
\<close>

theorem last_request_record_counterexample:
  "returned (init example_config [] ''user'' ''secret''
      \<lparr>clock = [10, 12] @- sconst 20, replies = Response token_response ## sconst ConnectionError,
       trace = []\<rparr>) \<and>
   status (outcome_client (init example_config [] ''user'' ''secret''
      \<lparr>clock = [10, 12] @- sconst 20, replies = Response token_response ## sconst ConnectionError,
       trace = []\<rparr>)) = Some 200 \<and>
   execution_time (outcome_client (init example_config [] ''user'' ''secret''
      \<lparr>clock = [10, 12] @- sconst 20, replies = Response token_response ## sconst ConnectionError,
       trace = []\<rparr>)) = 0"
  by (simp add: init_def login_def session_post_def time_time_def new_client_def
        token_response_def)


section \<open>Login answered with 200, and login refused\<close>

lemma map_of_dict_set: "map_of (dict_set k v d) k = Some v"
  by (induction d) auto

lemma map_of_dict_set_other: "k' \<noteq> k \<Longrightarrow> map_of (dict_set k v d) k' = map_of d k'"
  by (induction d) auto

text \<open>
  C2, as amended. A login answered with 200 marks the client logged in and sets the session
  start time to the clock reading taken after the response, whatever the body; when the body
  is a JSON object whose \<^verbatim>\<open>access_token\<close> is a string, the login returns and the session
  headers, as a later request without headers of its own sends them, hold
  \<^verbatim>\<open>Bearer\<close> and that token under \<^verbatim>\<open>authorization\<close>.
\<close>

theorem login_200:
  assumes "shd (replies w) = Response r" and "status_code r = 200"
  shows "is_logged_in (outcome_client (login cfg u p s w)) \<and>
         session_start_time (outcome_client (login cfg u p s w)) = Some (shd (clock w)) \<and>
         (\<forall>kvs tok. response_json r = Some (JObject kvs) \<and>
                    map_of kvs ''access_token'' = Some (JString tok) \<longrightarrow>
            returned (login cfg u p s w) \<and>
            map_of (sent_headers (outcome_client (login cfg u p s w)) None) ''authorization'' =
              Some (''Bearer '' @ tok))"
  using assms
  by (auto simp: login_def session_post_def time_time_def Let_def sent_headers_def map_of_dict_set
        split: option.split json.split)

theorem login_200_witness:
  "is_logged_in (outcome_client (login example_config ''user'' ''secret'' (new_client example_config [])
      \<lparr>clock = [10, 12] @- sconst 20, replies = Response token_response ## sconst ConnectionError,
       trace = []\<rparr>)) \<and>
   session_start_time (outcome_client (login example_config ''user'' ''secret'' (new_client example_config [])
      \<lparr>clock = [10, 12] @- sconst 20, replies = Response token_response ## sconst ConnectionError,
       trace = []\<rparr>)) = Some 10 \<and>
   map_of (sent_headers (outcome_client (login example_config ''user'' ''secret'' (new_client example_config [])
      \<lparr>clock = [10, 12] @- sconst 20, replies = Response token_response ## sconst ConnectionError,
       trace = []\<rparr>)) None) ''authorization'' = Some ''Bearer abc''"
  using login_200
    [of "\<lparr>clock = [10, 12] @- sconst 20, replies = Response token_response ## sconst ConnectionError,
          trace = []\<rparr>"
        token_response example_config "''user''" "''secret''" "new_client example_config []"]
  by (simp add: token_response_def)

text \<open>
  C2 as stated fails: a login answered with 200 and an empty JSON object raises, and no
  \<^verbatim>\<open>authorization\<close> header is in the session afterwards.
\<close>

theorem login_200_counterexample:
  "raised (login example_config ''user'' ''secret'' (new_client example_config [])
      \<lparr>clock = sconst 10,
       replies = Response \<lparr>status_code = 200, response_json = Some (JObject [])\<rparr> ## sconst ConnectionError,
       trace = []\<rparr>) = Some TypeError \<and>
   map_of (session_headers (outcome_client (login example_config ''user'' ''secret'' (new_client example_config [])
      \<lparr>clock = sconst 10,
       replies = Response \<lparr>status_code = 200, response_json = Some (JObject [])\<rparr> ## sconst ConnectionError,
       trace = []\<rparr>))) ''authorization'' = None"
  by (simp add: login_def session_post_def time_time_def new_client_def default_headers_def)

text \<open>
  A login that meets a connection error, a status other than 200 and 400, or the status 400
  with a JSON object as body, terminates the process and leaves the client as it was.
\<close>

lemma login_refused_exits:
  assumes "shd (replies w) = ConnectionError \<or>
           (\<exists>r. shd (replies w) = Response r \<and> status_code r \<noteq> 200 \<and>
                (status_code r = 400 \<longrightarrow> (\<exists>kvs. response_json r = Some (JObject kvs))))"
  shows "exited (login cfg u p s w) \<and> outcome_client (login cfg u p s w) = s"
  using assms
  by (auto simp: login_def session_post_def time_time_def)

text \<open>
  C6. The failing input: a login answered with status 400 and a body that is not JSON. The
  message for \<^verbatim>\<open>echo\<close> is \<^verbatim>\<open>response.json().get('error', ...)\<close>, and \<^verbatim>\<open>json()\<close> raises
  before \<^verbatim>\<open>echo\<close> is called with \<^verbatim>\<open>force_exit\<close>: the login raises and the process is not
  terminated. The client is still not logged in.
\<close>

theorem login_400_not_json_raises:
  "raised (login example_config ''user'' ''wrong'' (new_client example_config [])
      \<lparr>clock = sconst 10, replies = Response (plain_response 400) ## sconst ConnectionError,
       trace = []\<rparr>) = Some ValueError \<and>
   \<not> exited (login example_config ''user'' ''wrong'' (new_client example_config [])
      \<lparr>clock = sconst 10, replies = Response (plain_response 400) ## sconst ConnectionError,
       trace = []\<rparr>) \<and>
   \<not> is_logged_in (outcome_client (login example_config ''user'' ''wrong'' (new_client example_config [])
      \<lparr>clock = sconst 10, replies = Response (plain_response 400) ## sconst ConnectionError,
       trace = []\<rparr>))"
  by (simp add: login_def session_post_def time_time_def new_client_def plain_response_def)


section \<open>The session check of an expired session\<close>

text \<open>
  When every reading the clock will give is past the limit, \<^verbatim>\<open>execute\<close> calls
  \<^verbatim>\<open>__logout\<close>, which calls \<^verbatim>\<open>execute\<close> for its request, whose session check calls
  \<^verbatim>\<open>__logout\<close> again: nothing is ever sent, and the recursion limit ends the call.
\<close>

lemma expired_session_recursion:
  assumes "session_start_time s = Some t0"
    and "\<forall>t\<in>sset (clock w). session_expired cfg t0 t"
  shows "(\<exists>w'. execute n cfg url data headers jf s w = Some (Raises RecursionError s w') \<and>
               trace w' = trace w \<and> replies w' = replies w) \<and>
         (\<exists>w'. logout n cfg s w = Some (Raises RecursionError s w') \<and>
               trace w' = trace w \<and> replies w' = replies w)"
  using assms(2)
proof (induction n arbitrary: w url data headers jf)
  case 0
  show ?case by simp
next
  case (Suc n)
  let ?w1 = "w\<lparr>clock := stl (clock w)\<rparr>"
  have now: "session_expired cfg t0 (shd (clock w))"
    using Suc.prems by (simp add: shd_sset)
  have later: "\<forall>t\<in>sset (clock ?w1). session_expired cfg t0 t"
    using Suc.prems by (auto dest: stl_sset)
  from Suc.IH [OF later] obtain w' where
    lo: "logout n cfg s ?w1 = Some (Raises RecursionError s w')"
    and tr: "trace w' = trace w" and re: "replies w' = replies w"
    by fastforce
  have chk: "session_check n cfg s w = Some (Raises RecursionError s w')"
    using now lo assms(1) by (simp add: time_time_def)
  have ex: "execute (Suc n) cfg url data headers jf s w = Some (Raises RecursionError s w')"
    using chk by simp
  from Suc.IH [OF Suc.prems] obtain w'' where
    "execute n cfg ''auth/logout'' None None True s w = Some (Raises RecursionError s w'')"
    and "trace w'' = trace w" and "replies w'' = replies w"
    by blast
  then have "\<exists>w'. logout (Suc n) cfg s w = Some (Raises RecursionError s w') \<and>
               trace w' = trace w \<and> replies w' = replies w"
    by simp
  with ex tr re show ?case by blast
qed

text \<open>
  C1. The failing input: a logged-in client whose session started at 0, a limit of 900
  seconds, a clock that reads 1000, and a server that would answer the logout with 204, the
  login with a token and the request with 200. The call ends in a \<^verbatim>\<open>RecursionError\<close> and
  has sent nothing: no logout, no login, no request.
\<close>

theorem expired_execute_never_posts:
  "map_option raised
     (execute 1000 example_config ''students/list'' None None True example_client
        \<lparr>clock = sconst 1000,
         replies = [Response (plain_response 204), Response token_response,
                    Response (plain_response 200)] @- sconst ConnectionError,
         trace = []\<rparr>) = Some (Some RecursionError) \<and>
   map_option (trace \<circ> outcome_world)
     (execute 1000 example_config ''students/list'' None None True example_client
        \<lparr>clock = sconst 1000,
         replies = [Response (plain_response 204), Response token_response,
                    Response (plain_response 200)] @- sconst ConnectionError,
         trace = []\<rparr>) = Some []"
proof -
  let ?w = "\<lparr>clock = sconst 1000,
         replies = [Response (plain_response 204), Response token_response,
                    Response (plain_response 200)] @- sconst ConnectionError,
         trace = []\<rparr>"
  have a: "session_start_time example_client = Some 0"
    by (simp add: example_client_def)
  have b: "\<forall>t\<in>sset (clock ?w). session_expired example_config 0 t"
    by (simp add: session_expired_def py_int_def example_config_def)
  from expired_session_recursion [OF a b, of 1000 "''students/list''" None None True]
  show ?thesis by auto
qed

section \<open>Logout\<close>

lemma py_int_mono:
  assumes "x \<le> y"
  shows "py_int x \<le> py_int y"
proof -
  consider "0 \<le> x" | "x < 0" and "0 \<le> y" | "y < 0" by linarith
  then show ?thesis
  proof cases
    case 1
    with assms show ?thesis by (simp add: py_int_def floor_mono)
  next
    case 2
    then have "\<lceil>x\<rceil> \<le> 0" and "0 \<le> \<lfloor>y\<rfloor>" by (simp_all add: ceiling_le_iff)
    then have "\<lceil>x\<rceil> \<le> \<lfloor>y\<rfloor>" by (rule order_trans)
    moreover have "py_int x = \<lceil>x\<rceil>" and "py_int y = \<lfloor>y\<rfloor>"
      using 2 by (simp_all add: py_int_def)
    ultimately show ?thesis by (simp only:)
  next
    case 3
    with assms show ?thesis by (simp add: py_int_def ceiling_mono)
  qed
qed

lemma session_expired_later:
  "session_expired cfg t0 t \<Longrightarrow> t \<le> t' \<Longrightarrow> session_expired cfg t0 t'"
  unfolding session_expired_def
  using py_int_mono [of "t - t0" "t' - t0"] by simp

lemma nondecreasing_from_first: "nondecreasing c \<Longrightarrow> c !! 0 \<le> c !! i"
  unfolding nondecreasing_def
  by (induction i) (auto intro: order_trans)

lemma nondecreasing_expired:
  assumes "nondecreasing c" and "session_expired cfg t0 (shd c)"
  shows "\<forall>t\<in>sset (stl c). session_expired cfg t0 t"
proof
  fix t assume "t \<in> sset (stl c)"
  then obtain i where "t = stl c !! i" by (auto simp: sset_range)
  then have "t = c !! Suc i" by simp
  with nondecreasing_from_first [OF assms(1), of "Suc i"] have "shd c \<le> t" by simp
  with assms(2) show "session_expired cfg t0 t" by (rule session_expired_later)
qed


text \<open>
  Under a clock that is never set back the flag behaves as \<^verbatim>\<open>__logout\<close> is written: every
  logout that ends leaves \<^verbatim>\<open>is_logged_in\<close> false exactly when it returns with the stored
  status 204, and in every other case \<^verbatim>\<open>is_logged_in\<close> is what it was before.
\<close>

lemma logout_clears_exactly_on_204:
  assumes "nondecreasing (clock w)" and "logout n cfg s w = Some out"
  shows "is_logged_in (outcome_client out) =
           (if returned out \<and> status (outcome_client out) = Some 204 then False
            else is_logged_in s) \<and>
         (\<not> is_logged_in s \<longrightarrow> \<not> is_logged_in (outcome_client out))"
proof -
  have main: "is_logged_in (outcome_client out) =
           (if returned out \<and> status (outcome_client out) = Some 204 then False
            else is_logged_in s)"
  proof (cases n)
    case 0
    with assms(2) show ?thesis by auto
  next
    case (Suc m)
    note n = this
    show ?thesis
    proof (cases m)
      case 0
      with n assms(2) show ?thesis by auto
    next
      case (Suc l)
      note m = this
      let ?w1 = "w\<lparr>clock := stl (clock w)\<rparr>"
      show ?thesis
      proof (cases "session_start_time s")
        case None
        then have "session_check l cfg s w = Some (Raises AttributeError s ?w1)"
          by (simp add: time_time_def)
        with n m assms(2) show ?thesis by auto
      next
        case (Some t0)
        show ?thesis
        proof (cases "session_expired cfg t0 (shd (clock w))")
          case True
          from nondecreasing_expired [OF assms(1) True]
          have "\<forall>t\<in>sset (clock ?w1). session_expired cfg t0 t" by simp
          from expired_session_recursion [OF Some this, of l "''''" None None True]
          obtain w' where "logout l cfg s ?w1 = Some (Raises RecursionError s w')" by blast
          with Some True have "session_check l cfg s w = Some (Raises RecursionError s w')"
            by (simp add: time_time_def)
          with n m assms(2) show ?thesis by auto
        next
          case False
          with Some have chk: "session_check l cfg s w = Some (Returns () s ?w1)"
            by (simp add: time_time_def)
          have ex: "execute m cfg ''auth/logout'' None None True s w =
                      execute_request cfg ''auth/logout'' None None True s ?w1"
            unfolding m by (rule execute_after_check [OF chk])
          from assms(2) n ex obtain o1 where
            o1: "execute_request cfg ''auth/logout'' None None True s ?w1 = Some o1"
            by (cases "execute_request cfg ''auth/logout'' None None True s ?w1") auto
          from execute_request_keeps [OF o1]
          have keep: "is_logged_in (outcome_client o1) = is_logged_in s" by simp
          from assms(2) n ex o1 keep show ?thesis
            by (cases o1) (auto split: if_splits)
        qed
      qed
    qed
  qed
  then show ?thesis by (auto split: if_splits)
qed

text \<open>
  A logout of a session that is not expired at its check, whose attempts end with a
  response: the request is sent after the sleep, the status of the response is stored, and
  \<^verbatim>\<open>is_logged_in\<close> is cleared exactly when that status is 204. The call returns, unless the
  status is 200 and the body is not JSON, when the \<^verbatim>\<open>ValueError\<close> of \<^verbatim>\<open>execute\<close> passes
  through before the flag is looked at.
\<close>

lemma logout_answered:
  assumes "session_start_time s = Some t0" and "\<not> session_expired cfg t0 (shd (clock w))"
    and "replies w = replicate k ConnectionError @- (Response r ## rest)"
  shows "\<exists>s2 w2.
           logout (Suc (Suc n)) cfg s w =
             Some (if status_code r = 200 \<and> response_json r = None then Raises ValueError s2 w2
                   else Returns () s2 w2) \<and>
           status s2 = Some (status_code r) \<and>
           is_logged_in s2 = (if status_code r = 204 then False else is_logged_in s) \<and>
           replies w2 = rest \<and>
           trace w2 = trace w @ Sleep (EXECUTION_TIMEOUT cfg) #
             replicate (Suc k) (attempt s (url_prefix cfg @ ''/api/auth/logout'') [('''', '''')] [])"
proof -
  let ?w1 = "w\<lparr>clock := stl (clock w)\<rparr>"
  have chk: "session_check n cfg s w = Some (Returns () s ?w1)"
    using assms(1,2) by (simp add: time_time_def)
  have rep: "replies ?w1 = replicate k ConnectionError @- (Response r ## rest)"
    using assms(3) by simp
  show ?thesis
    unfolding logout.simps execute_after_check [OF chk] execute_request_eventually [OF rep]
    by (simp add: Let_def split: option.split)
qed

lemma retry_post_answered:
  "retry_post s u d h \<lparr>clock = c, replies = Response r ## rest, trace = tr\<rparr> =
     Some (r, shd c, shd (stl c),
           \<lparr>clock = stl (stl c), replies = rest, trace = tr @ [attempt s u d h]\<rparr>)"
  by (simp add: retry_post_ok)

text \<open>
  C9. The failing input: a client that is not logged in, whose session started at 0, with a
  limit of 900 seconds; the clock reads 1000 and then, set back, 10; the server answers 500,
  then 200 with a token, then 500. The logout finds the session expired, so its own request
  goes through the renewal of \<^verbatim>\<open>execute\<close>: a nested logout (answered 500), a login
  (answered 200) that marks the client logged in, and then the request (answered 500). The
  logout returns with the status 500 stored and with a client that is logged in.
\<close>

theorem logout_of_logged_out_client_logs_in:
  "\<not> is_logged_in (example_client\<lparr>is_logged_in := False\<rparr>) \<and>
   map_option returned
     (logout (Suc (Suc (Suc (Suc 0)))) example_config (example_client\<lparr>is_logged_in := False\<rparr>)
        \<lparr>clock = 1000 ## sconst 10,
         replies = Response (plain_response 500) ## Response token_response ##
                   Response (plain_response 500) ## sconst ConnectionError,
         trace = []\<rparr>) = Some True \<and>
   map_option (status \<circ> outcome_client)
     (logout (Suc (Suc (Suc (Suc 0)))) example_config (example_client\<lparr>is_logged_in := False\<rparr>)
        \<lparr>clock = 1000 ## sconst 10,
         replies = Response (plain_response 500) ## Response token_response ##
                   Response (plain_response 500) ## sconst ConnectionError,
         trace = []\<rparr>) = Some (Some 500) \<and>
   map_option (is_logged_in \<circ> outcome_client)
     (logout (Suc (Suc (Suc (Suc 0)))) example_config (example_client\<lparr>is_logged_in := False\<rparr>)
        \<lparr>clock = 1000 ## sconst 10,
         replies = Response (plain_response 500) ## Response token_response ##
                   Response (plain_response 500) ## sconst ConnectionError,
         trace = []\<rparr>) = Some True"
  by (simp add: time_time_def time_sleep_def session_expired_def py_int_def execute_request_def
        retry_post_answered login_def session_post_def example_client_def example_config_def
        plain_response_def token_response_def)

section \<open>The bearer token\<close>

lemma login_keeps_bearer: "has_bearer s \<Longrightarrow> has_bearer (outcome_client (login cfg u p s w))"
  by (auto simp: has_bearer_def login_def session_post_def time_time_def Let_def
        map_of_dict_set split: reply.split option.split json.split)

lemma login_bearer_after_200:
  "(has_bearer s \<longrightarrow> session_start_time s \<noteq> None) \<Longrightarrow>
   has_bearer (outcome_client (login cfg u p s w)) \<longrightarrow>
   session_start_time (outcome_client (login cfg u p s w)) \<noteq> None"
  by (auto simp: login_def session_post_def time_time_def Let_def
        split: reply.split option.split json.split)

lemma execute_request_client:
  assumes "execute_request cfg url data headers jf s w = Some out"
  shows "outcome_client out =
           s\<lparr>execution_time := execution_time (outcome_client out), status := status (outcome_client out)\<rparr>"
  using assms unfolding execute_request_def
  by (auto simp: Let_def split: option.splits prod.splits if_splits)

text \<open>
  A property of the client that every login keeps, and that does not depend on the status,
  the execution time and \<^verbatim>\<open>is_logged_in\<close>, is kept by \<^verbatim>\<open>execute\<close> and by logout.
\<close>

lemma execute_logout_keep:
  assumes login: "\<And>s u p w. P s \<Longrightarrow> P (outcome_client (login cfg u p s w))"
    and request: "\<And>s a b. P s \<Longrightarrow> P (s\<lparr>execution_time := a, status := b\<rparr>)"
    and flag: "\<And>s. P s \<Longrightarrow> P (s\<lparr>is_logged_in := False\<rparr>)"
  shows "P s \<Longrightarrow>
         (\<forall>out. execute n cfg url data headers jf s w = Some out \<longrightarrow> P (outcome_client out)) \<and>
         (\<forall>out. logout n cfg s w = Some out \<longrightarrow> P (outcome_client out))"
proof (induction n arbitrary: s w url data headers jf)
  case 0
  then show ?case by simp
next
  case (Suc n)
  have chk: "P (outcome_client c)" if "session_check n cfg s w = Some c" for c
  proof (cases "session_start_time s")
    case None
    with that Suc.prems show ?thesis by (auto simp: time_time_def)
  next
    case (Some t0)
    show ?thesis
    proof (cases "session_expired cfg t0 (shd (clock w))")
      case False
      with Some that Suc.prems show ?thesis by (auto simp: time_time_def)
    next
      case True
      let ?w1 = "w\<lparr>clock := stl (clock w)\<rparr>"
      from that Some True obtain lo where lo: "logout n cfg s ?w1 = Some lo"
        by (cases "logout n cfg s ?w1") (auto simp: time_time_def)
      with Suc.IH [OF Suc.prems] have plo: "P (outcome_client lo)" by blast
      from that Some True lo plo show ?thesis
        by (cases lo) (auto simp: time_time_def intro: login)
    qed
  qed
  have ex: "P (outcome_client out)" if "execute (Suc n) cfg url data headers jf s w = Some out" for out
  proof -
    from that obtain c where c: "session_check n cfg s w = Some c"
      by (cases "session_check n cfg s w") auto
    show ?thesis
    proof (cases c)
      case (Returns v s1 w1)
      with c that have r: "execute_request cfg url data headers jf s1 w1 = Some out" by simp
      from chk [OF c] Returns have "P s1" by simp
      with request [where s = s1 and a = "execution_time (outcome_client out)"
                      and b = "status (outcome_client out)"]
        execute_request_client [OF r]
      show ?thesis by simp
    next
      case (Raises e s1 w1)
      with c that chk [OF c] show ?thesis by auto
    next
      case (Exits s1 w1)
      with c that chk [OF c] show ?thesis by auto
    qed
  qed
  have lo: "P (outcome_client out)" if "logout (Suc n) cfg s w = Some out" for out
  proof -
    from that obtain e where e: "execute n cfg ''auth/logout'' None None True s w = Some e"
      by (cases "execute n cfg ''auth/logout'' None None True s w") auto
    with Suc.IH [OF Suc.prems] have "P (outcome_client e)" by blast
    with that e show ?thesis by (cases e) (auto intro: flag)
  qed
  from ex lo show ?case by blast
qed

lemma has_bearer_fields:
  "has_bearer (s\<lparr>execution_time := a, status := b\<rparr>) = has_bearer s"
  "has_bearer (s\<lparr>is_logged_in := c\<rparr>) = has_bearer s"
  by (simp_all add: has_bearer_def)

lemma fresh_client_no_bearer:
  "map_of hs ''authorization'' = None \<Longrightarrow> \<not> has_bearer (new_client cfg hs)"
  by (simp add: has_bearer_def new_client_def default_headers_def map_of_dict_set_other)

text \<open>
  C7, as amended. When a new session carries no \<^verbatim>\<open>authorization\<close> header, in every
  reachable client state the bearer token is defined only if a login has been answered with
  200 (the session start time is set); and a token that is defined before a logout is still
  defined after it, whatever the logout does to \<^verbatim>\<open>is_logged_in\<close>.
\<close>

theorem bearer_token_invariant:
  assumes "map_of hs ''authorization'' = None" and "reachable cfg hs s"
  shows "(has_bearer s \<longrightarrow> session_start_time s \<noteq> None) \<and>
         (\<forall>n w out. has_bearer s \<and> logout n cfg s w = Some out \<longrightarrow> has_bearer (outcome_client out))"
proof
  let ?I = "\<lambda>s. has_bearer s \<longrightarrow> session_start_time s \<noteq> None"
  have keepI: "(\<forall>out. execute n cfg url data headers jf s w = Some out \<longrightarrow> ?I (outcome_client out)) \<and>
         (\<forall>out. logout n cfg s w = Some out \<longrightarrow> ?I (outcome_client out))"
    if "?I s" for s n url data headers jf w
    by (rule execute_logout_keep [where P = ?I, OF _ _ _ that])
       (simp_all add: login_bearer_after_200 has_bearer_fields)
  from assms(2) show "?I s"
  proof (induction rule: reachable.induct)
    case fresh
    show ?case using fresh_client_no_bearer [OF assms(1)] by simp
  next
    case (after_login s u p w)
    then show ?case by (simp add: login_bearer_after_200)
  next
    case (after_logout s n w out)
    with keepI [of s] show ?case by blast
  next
    case (after_execute s n url d h jf w out')
    with keepI [of s] show ?case by blast
  qed
  have keepB: "(\<forall>out. execute n cfg url data headers jf s w = Some out \<longrightarrow> has_bearer (outcome_client out)) \<and>
         (\<forall>out. logout n cfg s w = Some out \<longrightarrow> has_bearer (outcome_client out))"
    if "has_bearer s" for s n url data headers jf w
    by (rule execute_logout_keep [where P = has_bearer, OF _ _ _ that])
       (simp_all add: login_keeps_bearer has_bearer_fields)
  then show "\<forall>n w out. has_bearer s \<and> logout n cfg s w = Some out \<longrightarrow> has_bearer (outcome_client out)"
    by blast
qed
text \<open>The example: the constructor logs in, and the logout at teardown is answered with 204.\<close>

lemma logged_in_client_eq:
  "logged_in_client =
     \<lparr>status = Some 200, execution_time = 0, is_logged_in = True, session_start_time = Some 10,
      session_headers =
        [(''Origin'', ''https://edbo.example''), (''Referer'', ''https://edbo.example''),
         (''User-Agent'', ''agent''), (''authorization'', ''Bearer abc'')]\<rparr>"
  by (simp add: logged_in_client_def init_def login_def session_post_def time_time_def
        new_client_def default_headers_def example_world_def example_config_def token_response_def)

lemma world_after_login_facts:
  "clock world_after_login = sconst 10"
  "replies world_after_login = Response (plain_response 204) ## sconst ConnectionError"
  by (simp_all add: world_after_login_def init_def login_def session_post_def time_time_def
        new_client_def default_headers_def example_world_def example_config_def token_response_def)

lemma example_init_returns:
  "returned (init example_config [] ''user'' ''secret'' example_world)"
  by (simp add: init_def login_def session_post_def time_time_def
        new_client_def default_headers_def example_world_def example_config_def token_response_def)

lemma example_logout:
  "\<exists>w2. logout (Suc (Suc 0)) example_config logged_in_client world_after_login =
     Some (Returns () (logged_in_client\<lparr>execution_time := 0, status := Some 204, is_logged_in := False\<rparr>) w2)"
proof -
  let ?w1 = "world_after_login\<lparr>clock := stl (clock world_after_login)\<rparr>"
  have chk: "session_check 0 example_config logged_in_client world_after_login =
               Some (Returns () logged_in_client ?w1)"
    by (simp add: time_time_def world_after_login_facts logged_in_client_eq session_expired_def
          py_int_def example_config_def)
  have rep: "replies ?w1 = replicate 0 ConnectionError @- (Response (plain_response 204) ## sconst ConnectionError)"
    by (simp add: world_after_login_facts)
  show ?thesis
    unfolding logout.simps execute_after_check [OF chk] execute_request_eventually [OF rep]
    by (simp add: Let_def plain_response_def world_after_login_facts)
qed

theorem bearer_token_invariant_witness:
  "map_of ([] :: dict) ''authorization'' = None \<and>
   reachable example_config [] logged_in_client \<and>
   has_bearer logged_in_client \<and>
   session_start_time logged_in_client \<noteq> None \<and>
   map_option (has_bearer \<circ> outcome_client)
     (logout (Suc (Suc 0)) example_config logged_in_client world_after_login) = Some True"
proof -
  have r: "reachable example_config [] logged_in_client"
    unfolding logged_in_client_def init_def
    by (rule reachable.after_login [OF reachable.fresh])
  have b: "has_bearer logged_in_client"
    by (simp add: has_bearer_def logged_in_client_eq)
  have e: "map_of ([] :: dict) ''authorization'' = None" by simp
  from example_logout obtain w2 where
    l: "logout (Suc (Suc 0)) example_config logged_in_client world_after_login =
     Some (Returns () (logged_in_client\<lparr>execution_time := 0, status := Some 204, is_logged_in := False\<rparr>) w2)"
    by blast
  from bearer_token_invariant [OF e r] b l
  have "session_start_time logged_in_client \<noteq> None"
    and "has_bearer (outcome_client
           (Returns () (logged_in_client\<lparr>execution_time := 0, status := Some 204, is_logged_in := False\<rparr>) w2))"
    by blast+
  with e r b l show ?thesis by simp
qed

text \<open>
  C7 as stated fails: after the constructor's login and a logout answered with 204 the client
  is not logged in, and the bearer token is still in the headers of the session.
\<close>

theorem bearer_token_counterexample:
  "returned (init example_config [] ''user'' ''secret'' example_world) \<and>
   map_option returned (del (Suc (Suc 0)) example_config logged_in_client world_after_login) = Some True \<and>
   map_option (is_logged_in \<circ> outcome_client)
     (del (Suc (Suc 0)) example_config logged_in_client world_after_login) = Some False \<and>
   map_option (has_bearer \<circ> outcome_client)
     (del (Suc (Suc 0)) example_config logged_in_client world_after_login) = Some True"
proof -
  have li: "is_logged_in logged_in_client" by (simp add: logged_in_client_eq)
  have b: "has_bearer logged_in_client"
    by (simp add: has_bearer_def logged_in_client_eq)
  from example_logout obtain w2 where
    l: "logout (Suc (Suc 0)) example_config logged_in_client world_after_login =
     Some (Returns () (logged_in_client\<lparr>execution_time := 0, status := Some 204, is_logged_in := False\<rparr>) w2)"
    by blast
  show ?thesis
    using example_init_returns li b l by (simp add: del_def has_bearer_fields)
qed

end
